theory Spec2Isabelle
  imports Complex_Main "HOL-Library.AList"
begin

section \<open>Python values, errors and dictionaries\<close>

text \<open>
  The module \<^verbatim>\<open>uxarray/io/_ugrid.py\<close> works on an \<^verbatim>\<open>xarray.Dataset\<close>. Every
  \<^verbatim>\<open>raise\<close> that a statement of the module can reach is a value of \<open>pyerror\<close>; a function
  that can raise returns \<open>pyerror + 'a\<close>, with \<open>Inl\<close> for the exception.
  \<open>TopologyNotFound\<close> and \<open>MalformedCoordinateReference\<close> are the two error conditions
  that the specification names; no statement of the source raises them.
\<close>

datatype pyerror =
    IndexError | KeyError | ValueError | AttributeError | TypeError
  | TopologyNotFound | MalformedCoordinateReference

definition bind :: "pyerror + 'a \<Rightarrow> ('a \<Rightarrow> pyerror + 'b) \<Rightarrow> pyerror + 'b" where
  "bind m f = (case m of Inl e \<Rightarrow> Inl e | Inr x \<Rightarrow> f x)"

text \<open>
  A floating-point number is kept abstract: a finite value (a rational), an infinity,
  or NaN. Only whether a value is NaN and whether two values are equal matters below.
\<close>

datatype npfloat = Finite rat | PosInf | NegInf | NaN

text \<open>The values an attribute (and the variable \<^verbatim>\<open>original_fv\<close>) can hold.\<close>

datatype pyval = PNone | PStr string | PInt int | PFloat npfloat

text \<open>Python's \<^verbatim>\<open>==\<close> on these values: numbers compare by value, NaN equals nothing.\<close>

fun py_eq :: "pyval \<Rightarrow> pyval \<Rightarrow> bool" where
  "py_eq PNone PNone = True"
| "py_eq (PStr a) (PStr b) = (a = b)"
| "py_eq (PInt a) (PInt b) = (a = b)"
| "py_eq (PInt a) (PFloat f) = (f = Finite (of_int a))"
| "py_eq (PFloat f) (PInt b) = (f = Finite (of_int b))"
| "py_eq (PFloat f) (PFloat g) = (f = g \<and> f \<noteq> NaN)"
| "py_eq _ _ = False"

text \<open>
  A Python \<^verbatim>\<open>dict\<close> is an association list in insertion order; \<^verbatim>\<open>d[k] = v\<close> replaces
  the value of a key that is present and appends the pair otherwise.
\<close>

definition dict_set :: "('k \<times> 'v) list \<Rightarrow> 'k \<Rightarrow> 'v \<Rightarrow> ('k \<times> 'v) list" where
  "dict_set d k v = AList.update k v d"

text \<open>\<^verbatim>\<open>xs[i]\<close> for an index \<open>i \<ge> 0\<close>: out of range raises IndexError.\<close>

definition list_get :: "'a list \<Rightarrow> nat \<Rightarrow> pyerror + 'a" where
  "list_get xs i = (if i < length xs then Inr (xs ! i) else Inl IndexError)"

text \<open>
  \<^verbatim>\<open>str.split()\<close> with no argument: the words between runs of whitespace, none of them
  empty. The whitespace characters below are those of Python's \<^verbatim>\<open>str.isspace\<close> among
  the first 256 code points.
\<close>

definition is_space :: "char \<Rightarrow> bool" where
  "is_space c = (c \<in> set [CHR 0x09, CHR 0x0A, CHR 0x0B, CHR 0x0C, CHR 0x0D,
                          CHR 0x1C, CHR 0x1D, CHR 0x1E, CHR 0x1F, CHR 0x20,
                          CHR 0x85, CHR 0xA0])"

fun split_ws :: "string \<Rightarrow> string \<Rightarrow> string list" where
  "split_ws cur [] = (if cur = [] then [] else [cur])"
| "split_ws cur (c # cs) =
     (if is_space c then (if cur = [] then split_ws [] cs else cur # split_ws [] cs)
      else split_ws (cur @ [c]) cs)"

definition split :: "string \<Rightarrow> string list" where
  "split s = split_ws [] s"

text \<open>\<^verbatim>\<open>a.split()\<close> on an attribute value: only a string has the method.\<close>

definition str_split :: "pyval \<Rightarrow> pyerror + string list" where
  "str_split a = (case a of PStr s \<Rightarrow> Inr (split s) | _ \<Rightarrow> Inl AttributeError)"

section \<open>Arrays, variables and datasets\<close>

text \<open>
  A numpy array is its dtype, its shape and its elements in row-major order. An array of
  an integer dtype holds integers, an array of a floating dtype holds floats, so NaN can
  only stand in a floating array. Arrays of other dtypes (strings, objects) are left out.
\<close>

datatype int_dtype = Int8 | Int16 | Int32 | Int64 | UInt8 | UInt16 | UInt32 | UInt64

datatype float_dtype = Float16 | Float32 | Float64

datatype dtype = IntT int_dtype | FloatT float_dtype

datatype ndarray =
    IntArray int_dtype "nat list" "int list"
  | FloatArray float_dtype "nat list" "npfloat list"

fun dtype_of :: "ndarray \<Rightarrow> dtype" where
  "dtype_of (IntArray k sh xs) = IntT k"
| "dtype_of (FloatArray k sh xs) = FloatT k"

fun shape_of :: "ndarray \<Rightarrow> nat list" where
  "shape_of (IntArray k sh xs) = sh"
| "shape_of (FloatArray k sh xs) = sh"

text \<open>\<^verbatim>\<open>np.isnan(a).any()\<close>: no element of an integer array is NaN.\<close>

fun isnan_any :: "ndarray \<Rightarrow> bool" where
  "isnan_any (IntArray k sh xs) = False"
| "isnan_any (FloatArray k sh xs) = list_ex (\<lambda>x. x = NaN) xs"

text \<open>
  An xarray variable: its dimension names in order, its attribute dictionary and its data.
  A dataset: its variables by name, in order, and the names among them that are marked as
  coordinates; the other variables are the data variables.
\<close>

record variable =
  dims :: "string list"
  attrs :: "(string \<times> pyval) list"
  data :: ndarray

record dataset =
  variables :: "(string \<times> variable) list"
  coord_names :: "string list"

text \<open>
  The operations of \<^verbatim>\<open>xarray.Dataset\<close> and \<^verbatim>\<open>xarray.DataArray\<close> that the module calls,
  as xarray defines them:
  \<^item> \<^verbatim>\<open>name in ds\<close> looks among all variables, coordinates included;
  \<^item> \<^verbatim>\<open>ds[name]\<close> is the variable of that name and raises KeyError when there is none
    (xarray's virtual variables, made up for a dimension name or a dotted name that no
    variable has, are left out);
  \<^item> \<^verbatim>\<open>ds.dims\<close> holds the dimensions of all variables;
  \<^item> \<^verbatim>\<open>len(ds)\<close> and iteration (\<^verbatim>\<open>ds.keys()\<close>) go over the data variables only;
  \<^item> \<^verbatim>\<open>da.<name>\<close> for a name that is no property of DataArray reads the attribute
    dictionary and raises AttributeError when the key is missing (a coordinate of the
    same name, which xarray would look up first, is left out);
  \<^item> \<^verbatim>\<open>v.attrs.get(name)\<close> is None for a missing key.
\<close>

definition contains :: "dataset \<Rightarrow> string \<Rightarrow> bool" where
  "contains ds k = (k \<in> set (map fst (variables ds)))"

definition getitem :: "dataset \<Rightarrow> string \<Rightarrow> pyerror + variable" where
  "getitem ds k = (case map_of (variables ds) k of None \<Rightarrow> Inl KeyError | Some v \<Rightarrow> Inr v)"

definition ds_dims :: "dataset \<Rightarrow> string list" where
  "ds_dims ds = concat (map (\<lambda>kv. dims (snd kv)) (variables ds))"

definition data_vars :: "dataset \<Rightarrow> string list" where
  "data_vars ds = filter (\<lambda>k. k \<notin> set (coord_names ds)) (map fst (variables ds))"

definition len :: "dataset \<Rightarrow> nat" where
  "len ds = length (data_vars ds)"

definition keys :: "dataset \<Rightarrow> string list" where
  "keys ds = data_vars ds"

definition getattr :: "variable \<Rightarrow> string \<Rightarrow> pyerror + pyval" where
  "getattr v k = (case map_of (attrs v) k of None \<Rightarrow> Inl AttributeError | Some a \<Rightarrow> Inr a)"

definition attrs_get :: "variable \<Rightarrow> string \<Rightarrow> pyval" where
  "attrs_get v k = (case map_of (attrs v) k of None \<Rightarrow> PNone | Some a \<Rightarrow> a)"

text \<open>
  \<^verbatim>\<open>ds[names]\<close> with a list of names (xarray's \<^verbatim>\<open>_copy_listed\<close>): the listed variables,
  and with them every coordinate of \<open>ds\<close> whose dimensions all occur among the listed
  variables' dimensions. The names listed below are always names of \<open>ds\<close>.
\<close>

fun add_listed ::
  "(string \<times> variable) list \<Rightarrow> string list \<Rightarrow> (string \<times> variable) list
     \<Rightarrow> (string \<times> variable) list" where
  "add_listed vs [] acc = acc"
| "add_listed vs (n # ns) acc =
     add_listed vs ns (case map_of vs n of None \<Rightarrow> acc | Some v \<Rightarrow> dict_set acc n v)"

definition copy_listed :: "dataset \<Rightarrow> string list \<Rightarrow> dataset" where
  "copy_listed ds names =
     (let listed = add_listed (variables ds) names [];
          needed_dims = concat (map (\<lambda>kv. dims (snd kv)) listed);
          cs = filter (\<lambda>k. k \<in> set (coord_names ds) \<and>
                            (case map_of (variables ds) k of
                               None \<Rightarrow> False
                             | Some v \<Rightarrow> list_all (\<lambda>d. d \<in> set needed_dims) (dims v)))
                 (map fst (variables ds))
      in \<lparr>variables = add_listed (variables ds) cs listed, coord_names = cs\<rparr>)"

text \<open>
  \<^verbatim>\<open>ds.filter_by_attrs(name=pattern)\<close>: the variables \<open>v\<close> for which the pattern accepts
  \<^verbatim>\<open>v.attrs.get(name)\<close>, as the dataset \<^verbatim>\<open>ds[selection]\<close>. A pattern that is a value
  accepts what equals it; a pattern that is a function accepts what it maps to true.
\<close>

definition filter_by_attrs :: "dataset \<Rightarrow> string \<Rightarrow> (pyval \<Rightarrow> bool) \<Rightarrow> dataset" where
  "filter_by_attrs ds name pattern =
     copy_listed ds (map fst (filter (\<lambda>kv. pattern (attrs_get (snd kv) name)) (variables ds)))"

text \<open>
  \<^verbatim>\<open>ds.rename(name_dict)\<close>: every key must be a variable or a dimension of \<open>ds\<close>
  (ValueError otherwise). The dictionary is applied to the names of the variables and to
  their dimension names alike; two variables that end up with one name are a ValueError.
\<close>

definition rename_name :: "(string \<times> string) list \<Rightarrow> string \<Rightarrow> string" where
  "rename_name name_dict k = (case map_of name_dict k of None \<Rightarrow> k | Some k' \<Rightarrow> k')"

fun rename_vars ::
  "(string \<times> string) list \<Rightarrow> (string \<times> variable) list \<Rightarrow> (string \<times> variable) list
     \<Rightarrow> pyerror + (string \<times> variable) list" where
  "rename_vars name_dict acc [] = Inr acc"
| "rename_vars name_dict acc (kv # rest) =
     (let var = (snd kv)\<lparr>dims := map (rename_name name_dict) (dims (snd kv))\<rparr>;
          name = rename_name name_dict (fst kv)
      in if name \<in> set (map fst acc) then Inl ValueError
         else rename_vars name_dict (acc @ [(name, var)]) rest)"

definition rename :: "dataset \<Rightarrow> (string \<times> string) list \<Rightarrow> pyerror + dataset" where
  "rename ds name_dict =
     (if list_ex (\<lambda>k. \<not> contains ds k \<and> k \<notin> set (ds_dims ds)) (map fst name_dict)
      then Inl ValueError
      else bind (rename_vars name_dict [] (variables ds)) (\<lambda>vs.
           Inr \<lparr>variables = vs,
                coord_names = map (rename_name name_dict)
                                (filter (\<lambda>k. k \<in> set (coord_names ds))
                                   (map fst (variables ds)))\<rparr>))"

text \<open>\<^verbatim>\<open>ds.set_coords(names)\<close>: ValueError unless every name is a variable of \<open>ds\<close>.\<close>

definition set_coords :: "dataset \<Rightarrow> string list \<Rightarrow> pyerror + dataset" where
  "set_coords ds names =
     (if list_ex (\<lambda>n. \<not> contains ds n) names then Inl ValueError
      else Inr (ds\<lparr>coord_names := List.union (coord_names ds) names\<rparr>))"

text \<open>
  \<^verbatim>\<open>ds[name].data = a\<close> and \<^verbatim>\<open>ds[name].attrs[k] = x\<close> change the variable that \<open>ds\<close>
  holds under that name; new data of another shape is a ValueError.
\<close>

definition set_data :: "variable \<Rightarrow> ndarray \<Rightarrow> pyerror + variable" where
  "set_data v a = (if shape_of a = shape_of (data v) then Inr (v\<lparr>data := a\<rparr>)
                   else Inl ValueError)"

definition set_variable :: "dataset \<Rightarrow> string \<Rightarrow> variable \<Rightarrow> dataset" where
  "set_variable ds k v = ds\<lparr>variables := dict_set (variables ds) k v\<rparr>"

section \<open>The module\<close>

subsection \<open>The parts of the package that the module imports\<close>

text \<open>
  \<^verbatim>\<open>INT_DTYPE\<close> and \<^verbatim>\<open>INT_FILL_VALUE\<close> (of \<^verbatim>\<open>uxarray.constants\<close>) and the function
  \<^verbatim>\<open>_replace_fill_values\<close> (of \<^verbatim>\<open>uxarray.grid.connectivity\<close>) are imported by the module
  and defined elsewhere. The functions below take them as the parameters \<open>rfv\<close>, \<open>idt\<close>
  (an integer dtype) and \<open>ifv\<close>, so what is proved of them holds whatever the three are.
\<close>

type_synonym replace_fn = "ndarray \<Rightarrow> pyval \<Rightarrow> int \<Rightarrow> int_dtype \<Rightarrow> pyerror + ndarray"

subsection \<open>\<^verbatim>\<open>_encode_ugrid\<close>\<close>

definition encode_ugrid :: "dataset \<Rightarrow> dataset" where
  "encode_ugrid ds = ds"

subsection \<open>\<^verbatim>\<open>_standardize_fill_values\<close>\<close>

text \<open>Lines 90 to 95: the fill value the connectivity variable has now.\<close>

definition original_fv :: "variable \<Rightarrow> pyval" where
  "original_fv conn =
     (case map_of (attrs conn) ''_FillValue'' of
        Some a \<Rightarrow> a
      | None \<Rightarrow> if isnan_any (data conn) then PFloat NaN else PNone)"

definition standardize_fill_values ::
  "replace_fn \<Rightarrow> int_dtype \<Rightarrow> int \<Rightarrow> dataset \<Rightarrow> pyerror + dataset" where
  "standardize_fill_values rfv idt ifv ds =
     bind (getitem ds ''face_node_connectivity'') (\<lambda>conn.
       let face_nodes = data conn;
           fv = original_fv conn
       in if dtype_of face_nodes \<noteq> IntT idt \<or> \<not> py_eq fv (PInt ifv) then
            bind (rfv face_nodes fv ifv idt) (\<lambda>new_face_nodes.
            bind (set_data conn new_face_nodes) (\<lambda>conn'.
              Inr (set_variable ds ''face_node_connectivity''
                     (conn'\<lparr>attrs := dict_set (attrs conn') ''_FillValue'' (PInt ifv)\<rparr>))))
          else Inr ds)"

subsection \<open>\<^verbatim>\<open>_is_ugrid\<close>\<close>

definition is_ugrid :: "dataset \<Rightarrow> bool" where
  "is_ugrid ds =
     (let node_coords_dv = filter_by_attrs ds ''node_coordinates'' (\<lambda>v. v \<noteq> PNone);
          face_conn_dv = filter_by_attrs ds ''face_node_connectivity'' (\<lambda>v. v \<noteq> PNone);
          topo_dim_dv = filter_by_attrs ds ''topology_dimension'' (\<lambda>v. v \<noteq> PNone);
          mesh_topo_dv = filter_by_attrs ds ''cf_role'' (\<lambda>v. v = PStr ''mesh_topology'')
      in if len mesh_topo_dv \<noteq> 0 \<and> len topo_dim_dv \<noteq> 0 \<and> len face_conn_dv \<noteq> 0
            \<and> len node_coords_dv \<noteq> 0
         then True else False)"

subsection \<open>\<^verbatim>\<open>_validate_minimum_ugrid\<close>\<close>

text \<open>
  The returned expression is \<^verbatim>\<open>(A) or (B) and C\<close>. In Python, as in HOL, \<open>and\<close> binds
  tighter than \<open>or\<close>: the expression reads \<^verbatim>\<open>A or (B and C)\<close>.
\<close>

definition validate_minimum_ugrid :: "dataset \<Rightarrow> bool" where
  "validate_minimum_ugrid grid_ds =
     ((contains grid_ds ''node_lon'' \<and> contains grid_ds ''node_lat'')
      \<or> (contains grid_ds ''node_x'' \<and> contains grid_ds ''node_y''
           \<and> contains grid_ds ''node_z'')
        \<and> contains grid_ds ''face_node_connectivity'')"

subsection \<open>\<^verbatim>\<open>_read_ugrid\<close>\<close>

text \<open>
  One \<open>bind\<close> for each step of the function that can raise, in the order of the source.
  \<^verbatim>\<open>xr_ds\<close> is assigned seven times; the model numbers the values \<open>ds1\<close> to \<open>ds7\<close>.
\<close>

definition read_ugrid ::
  "replace_fn \<Rightarrow> int_dtype \<Rightarrow> int \<Rightarrow> dataset
     \<Rightarrow> pyerror + dataset \<times> (string \<times> string) list" where
  "read_ugrid rfv idt ifv xr_ds =
     bind (list_get (keys (filter_by_attrs xr_ds ''cf_role''
                             (\<lambda>v. v = PStr ''mesh_topology''))) 0) (\<lambda>base_xarray_var.
     bind (rename xr_ds [(base_xarray_var, ''Mesh2'')]) (\<lambda>ds1.
     bind (getitem ds1 ''Mesh2'') (\<lambda>mesh2.
     bind (getattr mesh2 ''node_coordinates'') (\<lambda>nc.
     bind (str_split nc) (\<lambda>coord_names.
     bind (if length coord_names = 1 then
             rename ds1 [(coord_names ! 0, ''node_lon'')]
           else if length coord_names = 2 then
             rename ds1 (dict_set [(coord_names ! 0, ''node_lon'')]
                           (coord_names ! 1) ''node_lat'')
           else Inr ds1) (\<lambda>ds2.
     bind (getitem ds2 ''node_lon'') (\<lambda>node_lon.
     let coord_dim_name = dims node_lon in
     bind (list_get coord_dim_name 0) (\<lambda>coord_dim_name0.
     bind (rename ds2 [(coord_dim_name0, ''n_node'')]) (\<lambda>ds3.
     bind (getitem ds3 ''Mesh2'') (\<lambda>mesh2'.
     bind (getattr mesh2' ''face_node_connectivity'') (\<lambda>fnc.
     bind (str_split fnc) (\<lambda>face_node_names.
     bind (list_get face_node_names 0) (\<lambda>face_node_name.
     bind (getitem ds3 face_node_name) (\<lambda>face_node_var.
     bind (rename ds3 [(face_node_name, ''face_node_connectivity'')]) (\<lambda>ds4.
     bind (getitem ds4 ''face_node_connectivity'') (\<lambda>conn.
     bind (list_get (dims conn) 0) (\<lambda>conn_dim0.
     bind (list_get (dims conn) 1) (\<lambda>conn_dim1.
     bind (rename ds4 (dict_set [(conn_dim0, ''n_face'')]
                         conn_dim1 ''n_max_face_nodes'')) (\<lambda>ds5.
     bind (set_coords ds5 [''node_lon'', ''node_lat'']) (\<lambda>ds6.
     bind (standardize_fill_values rfv idt ifv ds6) (\<lambda>ds7.
     let source_dims_dict = dict_set [] coord_dim_name0 ''n_node'' in
     bind (getitem ds7 ''face_node_connectivity'') (\<lambda>conn'.
     bind (list_get (dims conn') 0) (\<lambda>key_face.
     let source_dims_dict = dict_set source_dims_dict key_face ''n_face'' in
     bind (list_get (dims conn') 1) (\<lambda>key_max.
     let source_dims_dict = dict_set source_dims_dict key_max ''n_max_face_nodes'' in
     Inr (ds7, source_dims_dict)))))))))))))))))))))))))"

text \<open>
  Lines 31 to 57 of \<^verbatim>\<open>_read_ugrid\<close> on their own: what the function does with the
  dataset it has once lines 25 to 29 are through. The lemma \<open>read_ugrid_split\<close> below shows
  that \<open>read_ugrid\<close> is lines 19 to 29 followed by exactly this.
\<close>

definition read_ugrid_from_line_31 ::
  "replace_fn \<Rightarrow> int_dtype \<Rightarrow> int \<Rightarrow> dataset
     \<Rightarrow> pyerror + dataset \<times> (string \<times> string) list" where
  "read_ugrid_from_line_31 rfv idt ifv ds2 =
     bind (getitem ds2 ''node_lon'') (\<lambda>node_lon.
     let coord_dim_name = dims node_lon in
     bind (list_get coord_dim_name 0) (\<lambda>coord_dim_name0.
     bind (rename ds2 [(coord_dim_name0, ''n_node'')]) (\<lambda>ds3.
     bind (getitem ds3 ''Mesh2'') (\<lambda>mesh2'.
     bind (getattr mesh2' ''face_node_connectivity'') (\<lambda>fnc.
     bind (str_split fnc) (\<lambda>face_node_names.
     bind (list_get face_node_names 0) (\<lambda>face_node_name.
     bind (getitem ds3 face_node_name) (\<lambda>face_node_var.
     bind (rename ds3 [(face_node_name, ''face_node_connectivity'')]) (\<lambda>ds4.
     bind (getitem ds4 ''face_node_connectivity'') (\<lambda>conn.
     bind (list_get (dims conn) 0) (\<lambda>conn_dim0.
     bind (list_get (dims conn) 1) (\<lambda>conn_dim1.
     bind (rename ds4 (dict_set [(conn_dim0, ''n_face'')]
                         conn_dim1 ''n_max_face_nodes'')) (\<lambda>ds5.
     bind (set_coords ds5 [''node_lon'', ''node_lat'']) (\<lambda>ds6.
     bind (standardize_fill_values rfv idt ifv ds6) (\<lambda>ds7.
     let source_dims_dict = dict_set [] coord_dim_name0 ''n_node'' in
     bind (getitem ds7 ''face_node_connectivity'') (\<lambda>conn'.
     bind (list_get (dims conn') 0) (\<lambda>key_face.
     let source_dims_dict = dict_set source_dims_dict key_face ''n_face'' in
     bind (list_get (dims conn') 1) (\<lambda>key_max.
     let source_dims_dict = dict_set source_dims_dict key_max ''n_max_face_nodes'' in
     Inr (ds7, source_dims_dict)))))))))))))))))))"

section \<open>The remap of fill values, and example datasets\<close>

text \<open>
  Modelled from the spec: \<^verbatim>\<open>_replace_fill_values\<close> of \<^verbatim>\<open>uxarray.grid.connectivity\<close>, which
  is not among the sources. Every element equal to the detected sentinel (NaN by
  sameness of NaN, not by equality) becomes the new fill value; every other element is
  cast to the new integer dtype, which must be exact: a value that is not a whole number
  of the dtype's range is a ValueError. The result has the input's shape and the new dtype.
  The theorems use this function only where a concrete \<open>rfv\<close> is needed.
\<close>

fun elems :: "ndarray \<Rightarrow> pyval list" where
  "elems (IntArray k sh xs) = map PInt xs"
| "elems (FloatArray k sh xs) = map PFloat xs"

fun int_min :: "int_dtype \<Rightarrow> int" where
  "int_min Int8 = - (2 ^ 7)"
| "int_min Int16 = - (2 ^ 15)"
| "int_min Int32 = - (2 ^ 31)"
| "int_min Int64 = - (2 ^ 63)"
| "int_min _ = 0"

fun int_max :: "int_dtype \<Rightarrow> int" where
  "int_max Int8 = 2 ^ 7 - 1"
| "int_max Int16 = 2 ^ 15 - 1"
| "int_max Int32 = 2 ^ 31 - 1"
| "int_max Int64 = 2 ^ 63 - 1"
| "int_max UInt8 = 2 ^ 8 - 1"
| "int_max UInt16 = 2 ^ 16 - 1"
| "int_max UInt32 = 2 ^ 32 - 1"
| "int_max UInt64 = 2 ^ 64 - 1"

definition is_fill :: "pyval \<Rightarrow> pyval \<Rightarrow> bool" where
  "is_fill original_fill e =
     (if original_fill = PFloat NaN then e = PFloat NaN else py_eq e original_fill)"

definition in_range :: "int_dtype \<Rightarrow> int \<Rightarrow> pyerror + int" where
  "in_range k i = (if int_min k \<le> i \<and> i \<le> int_max k then Inr i else Inl ValueError)"

fun cast_int :: "int_dtype \<Rightarrow> pyval \<Rightarrow> pyerror + int" where
  "cast_int k (PInt i) = in_range k i"
| "cast_int k (PFloat (Finite r)) =
     (if of_int \<lfloor>r\<rfloor> = r then in_range k \<lfloor>r\<rfloor> else Inl ValueError)"
| "cast_int k _ = Inl ValueError"

fun replace_all :: "int_dtype \<Rightarrow> pyval \<Rightarrow> int \<Rightarrow> pyval list \<Rightarrow> pyerror + int list" where
  "replace_all k original_fill new_fill [] = Inr []"
| "replace_all k original_fill new_fill (e # es) =
     bind (if is_fill original_fill e then in_range k new_fill else cast_int k e) (\<lambda>x.
     bind (replace_all k original_fill new_fill es) (\<lambda>xs. Inr (x # xs)))"

definition replace_fill_values :: replace_fn where
  "replace_fill_values grid_var original_fill new_fill new_dtype =
     bind (replace_all new_dtype original_fill new_fill (elems grid_var)) (\<lambda>xs.
       Inr (IntArray new_dtype (shape_of grid_var) xs))"

text \<open>
  The scenario of the specification: a topology variable \<^verbatim>\<open>Mesh2d\<close> that names the
  coordinates \<^verbatim>\<open>x y\<close> and the connectivity \<^verbatim>\<open>fnc\<close>; \<^verbatim>\<open>x\<close> and \<^verbatim>\<open>y\<close> over \<^verbatim>\<open>nNodes\<close>;
  \<^verbatim>\<open>fnc\<close> of shape (\<^verbatim>\<open>nFaces\<close> = 3, \<^verbatim>\<open>nMaxNodes\<close> = 4), 4-byte integers, padded with -1.
\<close>

definition topology_var :: "string \<Rightarrow> variable" where
  "topology_var node_coordinates =
     \<lparr>dims = [],
      attrs = [(''cf_role'', PStr ''mesh_topology''),
               (''topology_dimension'', PInt 2),
               (''node_coordinates'', PStr node_coordinates),
               (''face_node_connectivity'', PStr ''fnc'')],
      data = IntArray Int32 [] [0]\<rparr>"

definition node_var :: variable where
  "node_var = \<lparr>dims = [''nNodes''], attrs = [],
               data = FloatArray Float64 [5]
                        [Finite 0, Finite 1, Finite 2, Finite 3, Finite 4]\<rparr>"

definition fnc_var :: variable where
  "fnc_var = \<lparr>dims = [''nFaces'', ''nMaxNodes''], attrs = [(''_FillValue'', PInt (- 1))],
              data = IntArray Int32 [3, 4] [0, 1, 2, - 1, 1, 2, 3, 4, 2, 3, 4, - 1]\<rparr>"

definition scenario :: dataset where
  "scenario = \<lparr>variables = [(''Mesh2d'', topology_var ''x y''), (''x'', node_var),
                            (''y'', node_var), (''fnc'', fnc_var)],
               coord_names = []\<rparr>"

text \<open>The constants on a 64-bit platform: \<^verbatim>\<open>np.intp\<close> and its least value.\<close>

definition INT_DTYPE :: int_dtype where
  "INT_DTYPE = Int64"

definition INT_FILL_VALUE :: int where
  "INT_FILL_VALUE = - 9223372036854775808"

text \<open>Datasets for the statements below.\<close>

definition lonlat_only :: dataset where
  "lonlat_only = \<lparr>variables = [(''node_lon'', node_var), (''node_lat'', node_var)],
                  coord_names = []\<rparr>"

definition other_role :: dataset where
  "other_role =
     \<lparr>variables = [(''crs'', \<lparr>dims = [], attrs = [(''cf_role'', PStr ''grid_mapping'')],
                              data = IntArray Int32 [] [0]\<rparr>),
                   (''x'', node_var)],
      coord_names = []\<rparr>"

definition coordinate_tagged :: dataset where
  "coordinate_tagged = \<lparr>variables = [(''Mesh2d'', topology_var ''x y'')],
                         coord_names = [''Mesh2d'']\<rparr>"

definition none_valued :: dataset where
  "none_valued =
     \<lparr>variables = [(''Mesh2d'',
                    \<lparr>dims = [],
                     attrs = [(''cf_role'', PStr ''mesh_topology''),
                              (''topology_dimension'', PNone),
                              (''node_coordinates'', PStr ''x y''),
                              (''face_node_connectivity'', PStr ''fnc'')],
                     data = IntArray Int32 [] [0]\<rparr>)],
      coord_names = []\<rparr>"

definition one_name :: dataset where
  "one_name = \<lparr>variables = [(''Mesh2d'', topology_var ''x''), (''x'', node_var),
                               (''fnc'', fnc_var)],
               coord_names = []\<rparr>"

definition three_names :: dataset where
  "three_names = \<lparr>variables = [(''Mesh2d'', topology_var ''x y z''), (''x'', node_var),
                            (''y'', node_var), (''z'', node_var), (''fnc'', fnc_var)],
               coord_names = []\<rparr>"

definition no_names :: dataset where
  "no_names = \<lparr>variables = [(''Mesh2d'', topology_var ''''), (''node_lon'', node_var),
                            (''node_lat'', node_var), (''fnc'', fnc_var)],
               coord_names = []\<rparr>"

definition renamed :: dataset where
  "renamed = \<lparr>variables = [(''Mesh2'', topology_var ''x y''),
                           (''node_lon'', node_var\<lparr>dims := [''n_node'']\<rparr>),
                           (''node_lat'', node_var\<lparr>dims := [''n_node'']\<rparr>),
                           (''face_node_connectivity'',
                            fnc_var\<lparr>dims := [''n_face'', ''n_max_face_nodes'']\<rparr>)],
              coord_names = [''node_lon'', ''node_lat'']\<rparr>"

definition standardized :: dataset where
  "standardized =
     \<lparr>variables = [(''face_node_connectivity'',
                    \<lparr>dims = [''n_face'', ''n_max_face_nodes''],
                     attrs = [(''_FillValue'', PInt INT_FILL_VALUE)],
                     data = IntArray INT_DTYPE [2, 3] [0, 1, 2, 1, 2, INT_FILL_VALUE]\<rparr>)],
      coord_names = []\<rparr>"

text \<open>
  The specification's reading of \<^verbatim>\<open>looks_like_ugrid\<close>, in its words: at least one
  variable with \<^verbatim>\<open>cf_role == "mesh_topology"\<close>, at least one with a present
  \<^verbatim>\<open>topology_dimension\<close> attribute, one with a present \<^verbatim>\<open>face_node_connectivity\<close>
  attribute and one with a present \<^verbatim>\<open>node_coordinates\<close> attribute.
\<close>

definition looks_like_ugrid_spec :: "dataset \<Rightarrow> bool" where
  "looks_like_ugrid_spec ds =
     (list_ex (\<lambda>kv. map_of (attrs (snd kv)) ''cf_role'' = Some (PStr ''mesh_topology''))
        (variables ds)
      \<and> list_ex (\<lambda>kv. ''topology_dimension'' \<in> fst ` set (attrs (snd kv))) (variables ds)
      \<and> list_ex (\<lambda>kv. ''face_node_connectivity'' \<in> fst ` set (attrs (snd kv))) (variables ds)
      \<and> list_ex (\<lambda>kv. ''node_coordinates'' \<in> fst ` set (attrs (snd kv))) (variables ds))"

section \<open>Helper lemmas\<close>

lemma bind_Inr [simp]: "bind (Inr x) f = f x"
  by (simp add: bind_def)

lemma bind_Inl [simp]: "bind (Inl e) f = Inl e"
  by (simp add: bind_def)

lemma map_of_add_listed:
  "map_of (add_listed vs ns acc) k =
     (if k \<in> set ns \<and> k \<in> dom (map_of vs) then map_of vs k else map_of acc k)"
proof (induction ns arbitrary: acc)
  case Nil
  show ?case by simp
next
  case (Cons n ns)
  show ?case
    by (cases "map_of vs n") (auto simp: Cons.IH dict_set_def update_conv')
qed

lemma keys_add_listed:
  "fst ` set (add_listed vs ns acc) = {k \<in> set ns. k \<in> dom (map_of vs)} \<union> fst ` set acc"
proof -
  have "dom (map_of (add_listed vs ns acc)) = {k \<in> set ns. k \<in> dom (map_of vs)} \<union> dom (map_of acc)"
    by (auto simp: map_of_add_listed dom_def split: if_splits)
  then show ?thesis
    by (simp add: dom_map_of_conv_image_fst)
qed

lemma set_data_vars_copy_listed:
  "set (data_vars (copy_listed ds names)) =
     {n \<in> set names. n \<in> fst ` set (variables ds) \<and> n \<notin> set (coord_names ds)}"
proof -
  define vs where "vs = variables ds"
  define listed where "listed = add_listed vs names []"
  define needed where "needed = concat (map (\<lambda>kv. dims (snd kv)) listed)"
  define cs where "cs = filter (\<lambda>k. k \<in> set (coord_names ds) \<and>
      (case map_of vs k of None \<Rightarrow> False
       | Some v \<Rightarrow> list_all (\<lambda>d. d \<in> set needed) (dims v))) (map fst vs)"
  have cl: "copy_listed ds names = \<lparr>variables = add_listed vs cs listed, coord_names = cs\<rparr>"
    unfolding cs_def needed_def listed_def vs_def copy_listed_def Let_def by (rule refl)
  have keys_listed: "fst ` set listed = {k \<in> set names. k \<in> dom (map_of vs)}"
    by (simp add: listed_def keys_add_listed)
  have in_cs: "n \<in> set cs" if "n \<in> fst ` set listed" and "n \<in> set (coord_names ds)" for n
  proof -
    from that(1) keys_listed obtain v where v: "map_of vs n = Some v" and n: "n \<in> set names"
      by auto
    have "map_of listed n = Some v"
      using v n by (simp add: listed_def map_of_add_listed domI)
    then have "(n, v) \<in> set listed"
      by (rule map_of_SomeD)
    then have "set (dims v) \<subseteq> set needed"
      by (force simp: needed_def)
    moreover have "n \<in> fst ` set vs"
      using v by (metis domI dom_map_of_conv_image_fst)
    ultimately show ?thesis
      using that(2) by (auto simp: cs_def v list_all_iff)
  qed
  have cs_coord: "set cs \<subseteq> set (coord_names ds)"
    by (auto simp: cs_def)
  have "set (data_vars (copy_listed ds names)) = fst ` set (add_listed vs cs listed) - set cs"
    by (auto simp: cl data_vars_def)
  also have "\<dots> = fst ` set listed - set cs"
    by (auto simp: keys_add_listed)
  also have "\<dots> = {n \<in> set names. n \<in> fst ` set vs \<and> n \<notin> set (coord_names ds)}"
    using in_cs cs_coord keys_listed by (auto simp: dom_map_of_conv_image_fst)
  finally show ?thesis
    by (simp add: vs_def)
qed

lemma len_filter_by_attrs:
  "len (filter_by_attrs ds name pattern) \<noteq> 0 \<longleftrightarrow>
     (\<exists>k v. (k, v) \<in> set (variables ds) \<and> k \<notin> set (coord_names ds)
            \<and> pattern (attrs_get v name))"
proof -
  have "len (filter_by_attrs ds name pattern) \<noteq> 0 \<longleftrightarrow>
          set (data_vars (filter_by_attrs ds name pattern)) \<noteq> {}"
    by (simp add: len_def)
  also have "\<dots> \<longleftrightarrow> (\<exists>k v. (k, v) \<in> set (variables ds) \<and> k \<notin> set (coord_names ds)
            \<and> pattern (attrs_get v name))"
    unfolding filter_by_attrs_def set_data_vars_copy_listed by force
  finally show ?thesis .
qed

lemma keys_filter_by_attrs_empty:
  assumes "list_all (\<lambda>kv. \<not> pattern (attrs_get (snd kv) name)) (variables ds)"
  shows "keys (filter_by_attrs ds name pattern) = []"
proof -
  have "set (data_vars (filter_by_attrs ds name pattern)) = {}"
    using assms unfolding filter_by_attrs_def set_data_vars_copy_listed
    by (auto simp: list_all_iff)
  then show ?thesis
    by (simp add: keys_def)
qed

lemma py_eq_original_fv:
  assumes "py_eq (original_fv conn) (PInt ifv)"
  shows "\<exists>a. map_of (attrs conn) ''_FillValue'' = Some a \<and> py_eq a (PInt ifv)"
  using assms by (auto simp: original_fv_def split: option.splits if_splits)

text \<open>
  No operation of the container raises MalformedCoordinateReference, so lines 31 to 57
  can only raise it if the remap function does.
\<close>

lemma read_ugrid_split:
  "read_ugrid rfv idt ifv xr_ds =
     bind (list_get (keys (filter_by_attrs xr_ds ''cf_role''
                             (\<lambda>v. v = PStr ''mesh_topology''))) 0) (\<lambda>base_xarray_var.
     bind (rename xr_ds [(base_xarray_var, ''Mesh2'')]) (\<lambda>ds1.
     bind (getitem ds1 ''Mesh2'') (\<lambda>mesh2.
     bind (getattr mesh2 ''node_coordinates'') (\<lambda>nc.
     bind (str_split nc) (\<lambda>coord_names.
     bind (if length coord_names = 1 then
             rename ds1 [(coord_names ! 0, ''node_lon'')]
           else if length coord_names = 2 then
             rename ds1 (dict_set [(coord_names ! 0, ''node_lon'')]
                           (coord_names ! 1) ''node_lat'')
           else Inr ds1) (read_ugrid_from_line_31 rfv idt ifv))))))"
  unfolding read_ugrid_def read_ugrid_from_line_31_def by (rule refl)

lemma bind_not_Inl:
  assumes "m \<noteq> Inl e" and "\<And>x. f x \<noteq> Inl e"
  shows "bind m f \<noteq> Inl e"
  using assms by (cases m) simp_all

lemma bind_eq_Inl_iff:
  "bind m f = Inl e \<longleftrightarrow> m = Inl e \<or> (\<exists>x. m = Inr x \<and> f x = Inl e)"
  by (cases m) simp_all

lemma list_get_error: "list_get xs i \<noteq> Inl MalformedCoordinateReference"
  by (simp add: list_get_def)

lemma getitem_error: "getitem ds k \<noteq> Inl MalformedCoordinateReference"
  by (simp add: getitem_def split: option.splits)

lemma getattr_error: "getattr v k \<noteq> Inl MalformedCoordinateReference"
  by (simp add: getattr_def split: option.splits)

lemma str_split_error: "str_split a \<noteq> Inl MalformedCoordinateReference"
  by (simp add: str_split_def split: pyval.splits)

lemma set_coords_error: "set_coords ds names \<noteq> Inl MalformedCoordinateReference"
  by (simp add: set_coords_def)

lemma set_data_error: "set_data v a \<noteq> Inl MalformedCoordinateReference"
  by (simp add: set_data_def)

lemma rename_vars_error: "rename_vars name_dict acc vs \<noteq> Inl MalformedCoordinateReference"
  by (induction vs arbitrary: acc) (simp_all add: Let_def)

lemma rename_error: "rename ds name_dict \<noteq> Inl MalformedCoordinateReference"
  by (simp add: rename_def bind_not_Inl rename_vars_error)

lemma standardize_fill_values_error:
  assumes "\<And>a fv. rfv a fv ifv idt \<noteq> Inl MalformedCoordinateReference"
  shows "standardize_fill_values rfv idt ifv ds \<noteq> Inl MalformedCoordinateReference"
  by (auto simp: standardize_fill_values_def Let_def bind_eq_Inl_iff getitem_error
      set_data_error assms split: if_splits)

lemma read_ugrid_from_line_31_error:
  assumes "\<And>a fv. rfv a fv ifv idt \<noteq> Inl MalformedCoordinateReference"
  shows "read_ugrid_from_line_31 rfv idt ifv ds \<noteq> Inl MalformedCoordinateReference"
  unfolding read_ugrid_from_line_31_def Let_def
  by (intro bind_not_Inl getitem_error list_get_error rename_error getattr_error
      str_split_error set_coords_error standardize_fill_values_error assms) simp

lemma replace_all_error:
  "replace_all k original_fill new_fill es \<noteq> Inl MalformedCoordinateReference"
proof (induction es)
  case Nil
  show ?case by simp
next
  case (Cons e es)
  have "cast_int k e \<noteq> Inl MalformedCoordinateReference"
    by (cases "(k, e)" rule: cast_int.cases) (simp_all add: in_range_def)
  then show ?case
    using Cons by (auto simp: bind_eq_Inl_iff in_range_def split: if_splits)
qed

lemma replace_fill_values_error:
  "replace_fill_values a fv ifv idt \<noteq> Inl MalformedCoordinateReference"
  by (simp add: replace_fill_values_def bind_not_Inl replace_all_error)

section \<open>The encode step\<close>

text \<open>
  C9. For every dataset \<open>ds\<close>, the encode step returns \<open>ds\<close> itself, unchanged: it
  renames nothing, remaps nothing and inverts no schema.
\<close>

theorem encode_ugrid_identity: "encode_ugrid ds = ds"
  by (simp add: encode_ugrid_def)

section \<open>The conformance predicates\<close>

text \<open>
  C8, as the code has it. \<^verbatim>\<open>_is_ugrid\<close> is true exactly when the dataset has a data
  variable (a variable that is not marked as a coordinate) whose \<^verbatim>\<open>cf_role\<close> is
  \<^verbatim>\<open>"mesh_topology"\<close>, a data variable whose \<^verbatim>\<open>topology_dimension\<close> attribute is there
  and is not None, one whose \<^verbatim>\<open>face_node_connectivity\<close> attribute is there and is not
  None, and one whose \<^verbatim>\<open>node_coordinates\<close> attribute is there and is not None; the four
  can be different variables. A dataset with no attributes at all has none of them.
\<close>

theorem is_ugrid_data_variables:
  "is_ugrid ds \<longleftrightarrow>
     (\<exists>k v. (k, v) \<in> set (variables ds) \<and> k \<notin> set (coord_names ds)
            \<and> attrs_get v ''cf_role'' = PStr ''mesh_topology'')
   \<and> (\<exists>k v. (k, v) \<in> set (variables ds) \<and> k \<notin> set (coord_names ds)
            \<and> attrs_get v ''topology_dimension'' \<noteq> PNone)
   \<and> (\<exists>k v. (k, v) \<in> set (variables ds) \<and> k \<notin> set (coord_names ds)
            \<and> attrs_get v ''face_node_connectivity'' \<noteq> PNone)
   \<and> (\<exists>k v. (k, v) \<in> set (variables ds) \<and> k \<notin> set (coord_names ds)
            \<and> attrs_get v ''node_coordinates'' \<noteq> PNone)"
  unfolding is_ugrid_def Let_def len_filter_by_attrs by simp

text \<open>
  C8 as the claim states it fails. In \<open>coordinate_tagged\<close> the one variable carries all
  four markers and is marked as a coordinate; in \<open>none_valued\<close> the attribute
  \<^verbatim>\<open>topology_dimension\<close> is there with the value None. Both have what the claim asks for,
  and \<^verbatim>\<open>_is_ugrid\<close> is false for both.
\<close>

theorem is_ugrid_coordinate_or_none:
  "looks_like_ugrid_spec coordinate_tagged \<and> \<not> is_ugrid coordinate_tagged
   \<and> looks_like_ugrid_spec none_valued \<and> \<not> is_ugrid none_valued"
  by code_simp

text \<open>
  C1 fails on the code. \<open>lonlat_only\<close> has \<^verbatim>\<open>node_lon\<close> and \<^verbatim>\<open>node_lat\<close> and no
  connectivity; \<^verbatim>\<open>_validate_minimum_ugrid\<close> returns true for it.
\<close>

theorem validate_minimum_ugrid_without_connectivity:
  "validate_minimum_ugrid lonlat_only \<and> \<not> contains lonlat_only ''face_node_connectivity''"
  by (simp add: validate_minimum_ugrid_def contains_def lonlat_only_def)

section \<open>Normalisation: the topology variable\<close>

text \<open>
  C3, as the code has it. For every dataset with no variable whose \<^verbatim>\<open>cf_role\<close> equals
  \<^verbatim>\<open>"mesh_topology"\<close>, \<^verbatim>\<open>_read_ugrid\<close> fails at line 19 with the IndexError of taking the
  first element of an empty list.
\<close>

theorem read_ugrid_no_topology:
  assumes "list_all (\<lambda>kv. attrs_get (snd kv) ''cf_role'' \<noteq> PStr ''mesh_topology'')
             (variables ds)"
  shows "read_ugrid rfv idt ifv ds = Inl IndexError"
  using keys_filter_by_attrs_empty [OF assms]
  by (simp add: read_ugrid_def list_get_def)

text \<open>A dataset that satisfies the hypothesis of \<open>read_ugrid_no_topology\<close>.\<close>

theorem read_ugrid_no_topology_witness:
  "list_all (\<lambda>kv. attrs_get (snd kv) ''cf_role'' \<noteq> PStr ''mesh_topology'')
     (variables other_role)
   \<and> read_ugrid replace_fill_values INT_DTYPE INT_FILL_VALUE other_role = Inl IndexError"
proof -
  have h: "list_all (\<lambda>kv. attrs_get (snd kv) ''cf_role'' \<noteq> PStr ''mesh_topology'')
             (variables other_role)"
    by code_simp
  show ?thesis
    using h read_ugrid_no_topology [OF h] by simp
qed

text \<open>
  C3 as the claim states it fails: no variable of \<open>lonlat_only\<close> has a \<^verbatim>\<open>cf_role\<close>,
  and \<^verbatim>\<open>_read_ugrid\<close> raises IndexError, not the TopologyNotFound of the claim.
\<close>

theorem read_ugrid_no_topology_not_found_error:
  "list_all (\<lambda>kv. attrs_get (snd kv) ''cf_role'' \<noteq> PStr ''mesh_topology'')
     (variables lonlat_only)
   \<and> read_ugrid replace_fill_values INT_DTYPE INT_FILL_VALUE lonlat_only = Inl IndexError
   \<and> read_ugrid replace_fill_values INT_DTYPE INT_FILL_VALUE lonlat_only
       \<noteq> Inl TopologyNotFound"
  by code_simp

section \<open>Normalisation: the coordinate names\<close>

text \<open>
  C4, as the code has it. Let the \<^verbatim>\<open>node_coordinates\<close> attribute of the topology variable
  split into a number of names other than 1 or 2, and let \<open>ds1\<close> be the input after
  line 22 renamed the topology variable to \<^verbatim>\<open>Mesh2\<close>. Then lines 26 to 29 rename no
  coordinate variable: \<^verbatim>\<open>_read_ugrid\<close> does what lines 31 to 57 do with \<open>ds1\<close> as it is.
  It never raises MalformedCoordinateReference (the remap function not raising it). And
  if \<open>ds1\<close> has no variable called \<^verbatim>\<open>node_lon\<close>, and no dimension of that name either
  (for which xarray would make up a variable), it fails with KeyError at line 31.
\<close>

theorem read_ugrid_unsupported_coordinate_count:
  assumes "list_get (keys (filter_by_attrs ds ''cf_role''
                             (\<lambda>v. v = PStr ''mesh_topology''))) 0 = Inr b"
    and "rename ds [(b, ''Mesh2'')] = Inr ds1"
    and "getitem ds1 ''Mesh2'' = Inr mesh2"
    and "getattr mesh2 ''node_coordinates'' = Inr (PStr s)"
    and "length (split s) \<noteq> 1" and "length (split s) \<noteq> 2"
    and "\<And>a fv. rfv a fv ifv idt \<noteq> Inl MalformedCoordinateReference"
  shows "read_ugrid rfv idt ifv ds = read_ugrid_from_line_31 rfv idt ifv ds1
     \<and> read_ugrid rfv idt ifv ds \<noteq> Inl MalformedCoordinateReference
     \<and> (\<not> contains ds1 ''node_lon'' \<and> ''node_lon'' \<notin> set (ds_dims ds1)
          \<longrightarrow> read_ugrid rfv idt ifv ds = Inl KeyError)"
proof -
  have same: "read_ugrid rfv idt ifv ds = read_ugrid_from_line_31 rfv idt ifv ds1"
    using assms(1-6) by (simp add: read_ugrid_split str_split_def)
  have "read_ugrid_from_line_31 rfv idt ifv ds1 = Inl KeyError"
    if "\<not> contains ds1 ''node_lon''"
  proof -
    have "map_of (variables ds1) ''node_lon'' = None"
      using that by (simp add: contains_def map_of_eq_None_iff)
    then show ?thesis
      by (simp add: read_ugrid_from_line_31_def getitem_def)
  qed
  moreover have "read_ugrid_from_line_31 rfv idt ifv ds1 \<noteq> Inl MalformedCoordinateReference"
    by (rule read_ugrid_from_line_31_error) (rule assms(7))
  ultimately show ?thesis
    using same by simp
qed

theorem read_ugrid_unsupported_coordinate_count_witness:
  "list_get (keys (filter_by_attrs three_names ''cf_role''
                             (\<lambda>v. v = PStr ''mesh_topology''))) 0 = Inr ''Mesh2d''
   \<and> length (split ''x y z'') = 3
   \<and> read_ugrid replace_fill_values INT_DTYPE INT_FILL_VALUE three_names = Inl KeyError
   \<and> read_ugrid replace_fill_values INT_DTYPE INT_FILL_VALUE three_names
       \<noteq> Inl MalformedCoordinateReference"
proof -
  define ds1 where "ds1 = projr (rename three_names [(''Mesh2d'', ''Mesh2'')])"
  define mesh2 where "mesh2 = projr (getitem ds1 ''Mesh2'')"
  have 1: "list_get (keys (filter_by_attrs three_names ''cf_role''
                             (\<lambda>v. v = PStr ''mesh_topology''))) 0 = Inr ''Mesh2d''"
    by code_simp
  have 2: "rename three_names [(''Mesh2d'', ''Mesh2'')] = Inr ds1"
    unfolding ds1_def by code_simp
  have 3: "getitem ds1 ''Mesh2'' = Inr mesh2"
    unfolding mesh2_def ds1_def by code_simp
  have 4: "getattr mesh2 ''node_coordinates'' = Inr (PStr ''x y z'')"
    unfolding mesh2_def ds1_def by code_simp
  have 5: "length (split ''x y z'') = 3"
    by code_simp
  have 6: "\<not> contains ds1 ''node_lon''" "''node_lon'' \<notin> set (ds_dims ds1)"
    unfolding ds1_def by code_simp+
  have 7: "replace_fill_values a fv INT_FILL_VALUE INT_DTYPE \<noteq> Inl MalformedCoordinateReference"
    for a fv
    by (rule replace_fill_values_error)
  note run = read_ugrid_unsupported_coordinate_count
      [where rfv = replace_fill_values and ifv = INT_FILL_VALUE and idt = INT_DTYPE,
       OF 1 2 3 4 _ _ 7]
  have "length (split ''x y z'') \<noteq> 1" and "length (split ''x y z'') \<noteq> 2"
    using 5 by simp_all
  from run [OF this] 6 have
    "read_ugrid replace_fill_values INT_DTYPE INT_FILL_VALUE three_names = Inl KeyError"
    and "read_ugrid replace_fill_values INT_DTYPE INT_FILL_VALUE three_names
           \<noteq> Inl MalformedCoordinateReference"
    by blast+
  with 1 5 show ?thesis
    by blast
qed

text \<open>
  C4 as the claim states it fails. With three names and no variable \<^verbatim>\<open>node_lon\<close> the
  error is KeyError, not MalformedCoordinateReference; with no name at all and variables
  called \<^verbatim>\<open>node_lon\<close> and \<^verbatim>\<open>node_lat\<close> already there, \<^verbatim>\<open>_read_ugrid\<close> raises nothing.
\<close>

theorem read_ugrid_no_malformed_reference_error:
  "length (split ''x y z'') = 3
   \<and> read_ugrid replace_fill_values INT_DTYPE INT_FILL_VALUE three_names = Inl KeyError
   \<and> length (split '''') = 0
   \<and> \<not> isl (read_ugrid replace_fill_values INT_DTYPE INT_FILL_VALUE no_names)"
  by code_simp

text \<open>
  C5 fails on the code. \<open>one_name\<close> names one coordinate, \<^verbatim>\<open>x\<close>; line 27 renames it to
  \<^verbatim>\<open>node_lon\<close>, and line 47 then asks \<^verbatim>\<open>set_coords\<close> for \<^verbatim>\<open>node_lon\<close> and \<^verbatim>\<open>node_lat\<close>:
  no variable is called \<^verbatim>\<open>node_lat\<close>, which is a ValueError, whatever the constants and
  the remap function are.
\<close>

theorem read_ugrid_one_coordinate_name: "read_ugrid rfv idt ifv one_name = Inl ValueError"
  by code_simp

section \<open>Normalisation: the dimension map\<close>

text \<open>
  C2 fails on the code. On the scenario of the specification the returned dictionary has
  three entries; the first maps the source's node dimension \<^verbatim>\<open>nNodes\<close> to \<^verbatim>\<open>n_node\<close>, but
  lines 54 and 55 read the connectivity's dimensions after line 40 renamed them, so the
  other two keys are the canonical names themselves, not \<^verbatim>\<open>nFaces\<close> and \<^verbatim>\<open>nMaxNodes\<close>.
  This holds for every canonical dtype and sentinel and for every remap function that
  returns an array of the connectivity's shape.
\<close>

theorem read_ugrid_source_dims_scenario:
  assumes "rfv (data fnc_var) (PInt (- 1)) ifv idt = Inr a" and "shape_of a = [3, 4]"
  shows "map_sum id snd (read_ugrid rfv idt ifv scenario) =
     Inr [(''nNodes'', ''n_node''), (''n_face'', ''n_face''),
          (''n_max_face_nodes'', ''n_max_face_nodes'')]"
  using assms
  by (simp add: read_ugrid_def scenario_def topology_var_def node_var_def fnc_var_def
      filter_by_attrs_def copy_listed_def keys_def data_vars_def list_get_def rename_def
      contains_def ds_dims_def rename_name_def getitem_def getattr_def str_split_def split_def
      is_space_def dict_set_def set_coords_def standardize_fill_values_def original_fv_def
      set_data_def set_variable_def attrs_get_def Let_def List.union_def List.insert_def)

theorem read_ugrid_source_dims_scenario_witness:
  "replace_fill_values (data fnc_var) (PInt (- 1)) INT_FILL_VALUE INT_DTYPE =
     Inr (IntArray Int64 [3, 4]
            [0, 1, 2, INT_FILL_VALUE, 1, 2, 3, 4, 2, 3, 4, INT_FILL_VALUE])
   \<and> map_sum id snd (read_ugrid replace_fill_values INT_DTYPE INT_FILL_VALUE scenario) =
       Inr [(''nNodes'', ''n_node''), (''n_face'', ''n_face''),
            (''n_max_face_nodes'', ''n_max_face_nodes'')]"
proof -
  let ?a = "IntArray Int64 [3, 4]
              [0, 1, 2, INT_FILL_VALUE, 1, 2, 3, 4, 2, 3, 4, INT_FILL_VALUE]"
  have 1: "replace_fill_values (data fnc_var) (PInt (- 1)) INT_FILL_VALUE INT_DTYPE = Inr ?a"
    by code_simp
  have 2: "shape_of ?a = [3, 4]"
    by simp
  show ?thesis
    using 1 read_ugrid_source_dims_scenario
      [where rfv = replace_fill_values and ifv = INT_FILL_VALUE and idt = INT_DTYPE, OF 1 2]
    by simp
qed

section \<open>Fill values\<close>

text \<open>
  C6. The sentinel that \<^verbatim>\<open>_standardize_fill_values\<close> detects (lines 90 to 95): the value
  of the \<^verbatim>\<open>_FillValue\<close> attribute when the connectivity variable has one; otherwise NaN
  when the array is of a floating dtype and holds a NaN somewhere; otherwise None.
\<close>

theorem original_fv_priority:
  "original_fv conn =
     (case map_of (attrs conn) ''_FillValue'' of
        Some a \<Rightarrow> a
      | None \<Rightarrow> if (\<exists>k sh xs. data conn = FloatArray k sh xs \<and> NaN \<in> set xs)
                then PFloat NaN else PNone)"
  by (cases "data conn") (auto simp: original_fv_def list_ex_iff split: option.splits)

text \<open>
  C7. When the connectivity array has the canonical integer dtype and the detected
  sentinel equals the canonical one, \<^verbatim>\<open>_standardize_fill_values\<close> returns the dataset as
  it is: data and attributes are unchanged, and the result does not depend on the remap
  function \<open>rfv\<close>, which is not called.
\<close>

theorem standardize_fill_values_noop:
  assumes "getitem ds ''face_node_connectivity'' = Inr conn"
    and "dtype_of (data conn) = IntT idt"
    and "py_eq (original_fv conn) (PInt ifv)"
  shows "standardize_fill_values rfv idt ifv ds = Inr ds"
  using assms by (simp add: standardize_fill_values_def)

theorem standardize_fill_values_noop_witness:
  "getitem standardized ''face_node_connectivity'' =
     Inr \<lparr>dims = [''n_face'', ''n_max_face_nodes''],
          attrs = [(''_FillValue'', PInt INT_FILL_VALUE)],
          data = IntArray INT_DTYPE [2, 3] [0, 1, 2, 1, 2, INT_FILL_VALUE]\<rparr>
   \<and> standardize_fill_values replace_fill_values INT_DTYPE INT_FILL_VALUE standardized
       = Inr standardized"
proof -
  let ?conn = "\<lparr>dims = [''n_face'', ''n_max_face_nodes''],
          attrs = [(''_FillValue'', PInt INT_FILL_VALUE)],
          data = IntArray INT_DTYPE [2, 3] [0, 1, 2, 1, 2, INT_FILL_VALUE]\<rparr>"
  have 1: "getitem standardized ''face_node_connectivity'' = Inr ?conn"
    by (simp add: getitem_def standardized_def)
  have 2: "dtype_of (data ?conn) = IntT INT_DTYPE"
    by simp
  have 3: "py_eq (original_fv ?conn) (PInt INT_FILL_VALUE)"
    by (simp add: original_fv_def)
  show ?thesis
    using 1 standardize_fill_values_noop [OF 1 2 3] by simp
qed

text \<open>
  C10. Whenever \<^verbatim>\<open>_standardize_fill_values\<close> returns, the variable
  \<^verbatim>\<open>face_node_connectivity\<close> of the result has a \<^verbatim>\<open>_FillValue\<close> attribute whose value equals
  (Python's \<^verbatim>\<open>==\<close>) the canonical sentinel: on the remap branch line 110 writes it, and the
  other branch is only taken when the attribute is there and equal to it.
\<close>

theorem standardize_fill_values_attribute:
  assumes "standardize_fill_values rfv idt ifv ds = Inr ds'"
  shows "\<exists>conn a. getitem ds' ''face_node_connectivity'' = Inr conn
            \<and> map_of (attrs conn) ''_FillValue'' = Some a \<and> py_eq a (PInt ifv)"
proof (cases "getitem ds ''face_node_connectivity''")
  case (Inl e)
  with assms show ?thesis
    by (simp add: standardize_fill_values_def)
next
  case (Inr conn)
  show ?thesis
  proof (cases "dtype_of (data conn) \<noteq> IntT idt \<or> \<not> py_eq (original_fv conn) (PInt ifv)")
    case False
    with Inr assms have "ds' = ds"
      by (simp add: standardize_fill_values_def)
    with False Inr py_eq_original_fv show ?thesis
      by blast
  next
    case True
    with Inr assms obtain a conn' where
      "rfv (data conn) (original_fv conn) ifv idt = Inr a"
      and "set_data conn a = Inr conn'"
      and ds': "ds' = set_variable ds ''face_node_connectivity''
               (conn'\<lparr>attrs := dict_set (attrs conn') ''_FillValue'' (PInt ifv)\<rparr>)"
      by (auto simp: standardize_fill_values_def Let_def bind_def split: sum.splits)
    show ?thesis
      by (simp add: ds' getitem_def set_variable_def dict_set_def update_conv')
  qed
qed

theorem standardize_fill_values_attribute_witness:
  "\<not> isl (standardize_fill_values replace_fill_values INT_DTYPE INT_FILL_VALUE renamed)
   \<and> (\<exists>conn a. getitem (projr (standardize_fill_values replace_fill_values INT_DTYPE
                                  INT_FILL_VALUE renamed)) ''face_node_connectivity'' = Inr conn
            \<and> map_of (attrs conn) ''_FillValue'' = Some a \<and> py_eq a (PInt INT_FILL_VALUE))"
proof -
  have 1: "\<not> isl (standardize_fill_values replace_fill_values INT_DTYPE INT_FILL_VALUE renamed)"
    by code_simp
  then have 2: "standardize_fill_values replace_fill_values INT_DTYPE INT_FILL_VALUE renamed
      = Inr (projr (standardize_fill_values replace_fill_values INT_DTYPE INT_FILL_VALUE renamed))"
    by (cases "standardize_fill_values replace_fill_values INT_DTYPE INT_FILL_VALUE renamed") simp_all
  show ?thesis
    using 1 standardize_fill_values_attribute [OF 2] by simp
qed

end
